theory Spec2Isabelle
  imports Main
begin

section \<open>The PKI action model of the web console (ui/app/models/pki/action.js)\<close>

text \<open>
  The source file declares one Ember Data model class, \<open>PkiActionModel\<close>: a table of
  attribute declarations (\<open>@attr(transform, options)\<close>), a table of validation rules
  handed to the \<open>withModelValidations\<close> decorator, and four getters that read the
  \<open>canCreate\<close> flag of four lazily resolved capability objects.
\<close>

subsection \<open>JavaScript values\<close>

text \<open>
  The values a property of the model can hold. Numbers are integers here: the only
  number the file mentions is the default \<open>-1\<close>, and no arithmetic is done on it.
  Arrays, dates and parsed certificates are objects, known by their reference only.
\<close>

datatype jsval =
    JUndefined
  | JNull
  | JBool bool
  | JNum int
  | JStr string
  | JObj nat

text \<open>The operator \<open>===\<close>: same type and same value, objects by reference.\<close>

definition strict_eq :: "jsval \<Rightarrow> jsval \<Rightarrow> bool" where
  "strict_eq a b =
     (case (a, b) of
        (JUndefined, JUndefined) \<Rightarrow> True
      | (JNull, JNull) \<Rightarrow> True
      | (JBool x, JBool y) \<Rightarrow> x = y
      | (JNum x, JNum y) \<Rightarrow> x = y
      | (JStr x, JStr y) \<Rightarrow> x = y
      | (JObj x, JObj y) \<Rightarrow> x = y
      | _ \<Rightarrow> False)"

subsection \<open>Attribute declarations\<close>

text \<open>
  One entry per \<open>@attr\<close> of the class, in the order of the source. Of the options only
  those that carry data are kept: the transform name (the first argument, absent for a
  bare \<open>@attr\<close>), \<open>defaultValue\<close> and \<open>possibleValues\<close>. The remaining options
  (\<open>label\<close>, \<open>subText\<close>, \<open>editType\<close>, \<open>readOnly\<close>, \<open>masked\<close>, \<open>noDefault\<close>,
  \<open>detailLinkTo\<close>, the helper texts) only steer how a form renders the field.
\<close>

record attr_options =
  transform :: "string option"
  defaultValue :: "jsval option"
  possibleValues :: "string list"

definition attr :: "string option \<Rightarrow> attr_options" where
  "attr t = \<lparr>transform = t, defaultValue = None, possibleValues = []\<rparr>"

definition attributes :: "(string \<times> attr_options) list" where
  "attributes =
   [(''pemBundle'', attr (Some ''string'')),
    (''parsedCertificate'', attr None),
    (''importedIssuers'', attr None),
    (''importedKeys'', attr None),
    (''mapping'', attr None),
    (''certificate'', attr (Some ''string'')),
    (''serialNumber'', attr None),
    (''issuingCa'', attr (Some ''string'')),
    (''type'', (attr (Some ''string''))
        \<lparr>possibleValues := [''exported'', ''internal'', ''existing'', ''kms'']\<rparr>),
    (''issuerName'', attr (Some ''string'')),
    (''keyName'', attr (Some ''string'')),
    (''keyRef'', (attr (Some ''string''))\<lparr>defaultValue := Some (JStr ''default'')\<rparr>),
    (''commonName'', attr (Some ''string'')),
    (''altNames'', attr (Some ''string'')),
    (''ipSans'', attr (Some ''string'')),
    (''uriSans'', attr (Some ''string'')),
    (''otherSans'', attr (Some ''string'')),
    (''format'', (attr (Some ''string''))
        \<lparr>defaultValue := Some (JStr ''pem''),
         possibleValues := [''pem'', ''der'', ''pem_bundle'']\<rparr>),
    (''privateKeyFormat'', (attr (Some ''string''))
        \<lparr>defaultValue := Some (JStr ''der''),
         possibleValues := [''der'', ''pkcs8'']\<rparr>),
    (''keyType'', (attr (Some ''string''))
        \<lparr>defaultValue := Some (JStr ''rsa''),
         possibleValues := [''rsa'', ''ed25519'', ''ec'']\<rparr>),
    (''keyBits'', (attr (Some ''string''))\<lparr>defaultValue := Some (JStr ''0'')\<rparr>),
    (''maxPathLength'', (attr (Some ''number''))\<lparr>defaultValue := Some (JNum (- 1))\<rparr>),
    (''excludeCnFromSans'', (attr (Some ''boolean''))
        \<lparr>defaultValue := Some (JBool False)\<rparr>),
    (''permittedDnsDomains'', attr (Some ''string'')),
    (''ou'', attr (Some ''string'')),
    (''organization'', attr None),
    (''country'', attr None),
    (''locality'', attr None),
    (''province'', attr None),
    (''streetAddress'', attr None),
    (''postalCode'', attr None),
    (''subjectSerialNumber'', attr (Some ''string'')),
    (''addBasicConstraints'', attr (Some ''boolean'')),
    (''notBeforeDuration'', (attr None)\<lparr>defaultValue := Some (JStr ''30s'')\<rparr>),
    (''managedKeyName'', attr (Some ''string'')),
    (''managedKeyId'', attr (Some ''string'')),
    (''customTtl'', attr None),
    (''ttl'', attr (Some ''string'')),
    (''notAfter'', attr (Some ''date'')),
    (''issuerId'', attr (Some ''string'')),
    (''csr'', attr (Some ''string'')),
    (''caChain'', attr None),
    (''keyId'', attr (Some ''string'')),
    (''privateKey'', attr (Some ''string'')),
    (''privateKeyType'', attr (Some ''string''))]"

subsection \<open>Capability objects\<close>

text \<open>
  Modelled from the spec: the \<open>lazyCapabilities\<close> macro and its \<open>apiPath\<close> template tag
  (vault/macros/lazy-capabilities) are not part of the source at hand. The spec's
  permissions oracle "returns (possibly asynchronously) a capability result exposing a
  \<open>canCreate\<close> boolean field"; its outcome for a path is still pending, or the lookup
  failed, or it resolved to a result object. Reading a field of an outcome that has not
  resolved gives \<open>undefined\<close> and does not throw ("any other oracle response, including
  unknown/pending, resolves to false", "no exception propagates to the caller").
\<close>

datatype capabilities =
    Pending
  | Rejected
  | Resolved "string \<Rightarrow> jsval"

fun capabilities_get :: "capabilities \<Rightarrow> string \<Rightarrow> jsval" where
  "capabilities_get Pending key = JUndefined"
| "capabilities_get Rejected key = JUndefined"
| "capabilities_get (Resolved content) key = content key"

subsection \<open>The model object\<close>

text \<open>
  A JavaScript object is read by property name: \<open>model.keyName\<close> is \<open>props model ''keyName''\<close>,
  and a property that was never set reads as \<open>undefined\<close>. \<open>props\<close> holds the attributes
  and the tracked \<open>actionType\<close>. \<open>secretMountPath\<close> is the \<open>currentPath\<close> of the injected
  service. The four \<open>...Path\<close> properties hold what the oracle has found for the path
  their \<open>lazyCapabilities\<close> declaration names.
\<close>

record PkiActionModel =
  props :: "string \<Rightarrow> jsval"
  secretMountPath :: string
  importBundlePath :: capabilities
  generateIssuerRootPath :: capabilities
  generateIssuerCsrPath :: capabilities
  crossSignPath :: capabilities

definition backend :: "PkiActionModel \<Rightarrow> string" where
  "backend this = secretMountPath this"

text \<open>
  What Ember Data's \<open>attr\<close> gives for an attribute that holds no value: the declared
  \<open>defaultValue\<close>, and \<open>undefined\<close> when none is declared (the spec: "a record is created
  empty (all fields default/undefined)").
\<close>

definition default_of :: "string \<Rightarrow> jsval" where
  "default_of key =
     (case map_of attributes key of
        None \<Rightarrow> JUndefined
      | Some options \<Rightarrow>
          (case defaultValue options of None \<Rightarrow> JUndefined | Some v \<Rightarrow> v))"

text \<open>
  \<open>store.createRecord('pki/action', inputs)\<close>: the properties given in \<open>inputs\<close> are
  set, every other one is unset.
\<close>

definition createRecord ::
  "(string \<rightharpoonup> jsval) \<Rightarrow> string \<Rightarrow> capabilities \<Rightarrow> capabilities \<Rightarrow> capabilities \<Rightarrow>
   capabilities \<Rightarrow> PkiActionModel" where
  "createRecord inputs mount ib gr gc cs =
     \<lparr>props = (\<lambda>key. case inputs key of None \<Rightarrow> default_of key | Some v \<Rightarrow> v),
      secretMountPath = mount,
      importBundlePath = ib,
      generateIssuerRootPath = gr,
      generateIssuerCsrPath = gc,
      crossSignPath = cs\<rparr>"

text \<open>The assignment \<open>model.key = v\<close>.\<close>

definition set_prop :: "PkiActionModel \<Rightarrow> string \<Rightarrow> jsval \<Rightarrow> PkiActionModel" where
  "set_prop model key v = model\<lparr>props := (props model)(key := v)\<rparr>"

text \<open>
  A record created without inputs on the mount \<open>pki\<close>, before any capability lookup
  has come back.
\<close>

definition fresh :: PkiActionModel where
  "fresh = createRecord Map.empty ''pki'' Pending Pending Pending Pending"

subsection \<open>Capability getters\<close>

definition canImportBundle :: "PkiActionModel \<Rightarrow> bool" where
  "canImportBundle this =
     strict_eq (capabilities_get (importBundlePath this) ''canCreate'') (JBool True)"

definition canGenerateIssuerRoot :: "PkiActionModel \<Rightarrow> bool" where
  "canGenerateIssuerRoot this =
     strict_eq (capabilities_get (generateIssuerRootPath this) ''canCreate'') (JBool True)"

definition canGenerateIssuerIntermediate :: "PkiActionModel \<Rightarrow> bool" where
  "canGenerateIssuerIntermediate this =
     strict_eq (capabilities_get (generateIssuerCsrPath this) ''canCreate'') (JBool True)"

definition canCrossSign :: "PkiActionModel \<Rightarrow> bool" where
  "canCrossSign this =
     strict_eq (capabilities_get (crossSignPath this) ''canCreate'') (JBool True)"

subsection \<open>Validation rules\<close>

text \<open>
  A rule of the \<open>validations\<close> table is either \<open>{ type: 'presence', message }\<close> or
  \<open>{ validator(model) {...}, message }\<close>. A custom validator is handed the model object
  itself, so it is a function from the model to its verdict and the model it leaves
  behind.
\<close>

datatype rule =
    Presence string
  | Validator "PkiActionModel \<Rightarrow> bool \<times> PkiActionModel" string

definition issuerName_validator :: "PkiActionModel \<Rightarrow> bool \<times> PkiActionModel" where
  "issuerName_validator model =
     (if (strict_eq (props model ''actionType'') (JStr ''generate-root'') \<or>
          strict_eq (props model ''actionType'') (JStr ''rotate-root'')) \<and>
         strict_eq (props model ''issuerName'') (JStr ''default'')
      then (False, model)
      else (True, model))"

definition keyName_validator :: "PkiActionModel \<Rightarrow> bool \<times> PkiActionModel" where
  "keyName_validator model =
     (if strict_eq (props model ''keyName'') (JStr ''default'')
      then (False, model)
      else (True, model))"

definition validations :: "(string \<times> rule list) list" where
  "validations =
   [(''type'', [Presence ''Type is required.'']),
    (''commonName'', [Presence ''Common name is required.'']),
    (''issuerName'',
       [Validator issuerName_validator
          ''Issuer name must be unique across all issuers and not be the reserved value 'default'.'']),
    (''keyName'',
       [Validator keyName_validator
          (''Key name cannot be the reserved value 'default'' @ [CHR 0x27])])]"

subsection \<open>The validation evaluator\<close>

text \<open>
  Modelled from the spec: the \<open>withModelValidations\<close> decorator
  (vault/decorators/model-validations) and the \<open>presence\<close> validator it looks up by
  name are not part of the source at hand. The spec: "given a populated ActionConfig,
  produce a set of (field, message) validation failures, evaluated independently per
  field"; a presence rule fails with \<open>MissingRequiredField\<close> "if absent/empty", a custom
  rule that rejects fails with \<open>ReservedValue\<close>; "a record is valid iff no rule produces
  a failure".
\<close>

datatype failure_kind = MissingRequiredField | ReservedValue

record failure =
  field :: string
  kind :: failure_kind
  message :: string

definition presence :: "jsval \<Rightarrow> bool" where
  "presence v = (v \<noteq> JUndefined \<and> v \<noteq> JNull \<and> v \<noteq> JStr '''')"

text \<open>One rule on one field: whether it passed, the failure if not, the model after.\<close>

fun run_rule :: "string \<Rightarrow> rule \<Rightarrow> PkiActionModel \<Rightarrow> (bool \<times> failure list) \<times> PkiActionModel" where
  "run_rule key (Presence msg) model =
     (if presence (props model key)
      then ((True, []), model)
      else ((False, [\<lparr>field = key, kind = MissingRequiredField, message = msg\<rparr>]), model))"
| "run_rule key (Validator v msg) model =
     (case v model of
        (True, model') \<Rightarrow> ((True, []), model')
      | (False, model') \<Rightarrow>
          ((False, [\<lparr>field = key, kind = ReservedValue, message = msg\<rparr>]), model'))"

fun run_rules :: "string \<Rightarrow> rule list \<Rightarrow> PkiActionModel \<Rightarrow> (bool \<times> failure list) \<times> PkiActionModel" where
  "run_rules key [] model = ((True, []), model)"
| "run_rules key (r # rs) model =
     (case run_rule key r model of
        ((ok, fs), model') \<Rightarrow>
          (case run_rules key rs model' of
             ((ok', fs'), model'') \<Rightarrow> ((ok \<and> ok', fs @ fs'), model'')))"

fun run_fields :: "(string \<times> rule list) list \<Rightarrow> PkiActionModel \<Rightarrow> (bool \<times> failure list) \<times> PkiActionModel" where
  "run_fields [] model = ((True, []), model)"
| "run_fields ((key, rs) # rest) model =
     (case run_rules key rs model of
        ((ok, fs), model') \<Rightarrow>
          (case run_fields rest model' of
             ((ok', fs'), model'') \<Rightarrow> ((ok \<and> ok', fs @ fs'), model'')))"

definition validate :: "PkiActionModel \<Rightarrow> (bool \<times> failure list) \<times> PkiActionModel" where
  "validate model = run_fields validations model"

definition isValid :: "PkiActionModel \<Rightarrow> bool" where
  "isValid model = fst (fst (validate model))"

definition failures :: "PkiActionModel \<Rightarrow> failure list" where
  "failures model = snd (fst (validate model))"

definition after_validate :: "PkiActionModel \<Rightarrow> PkiActionModel" where
  "after_validate model = snd (validate model)"

section \<open>Properties\<close>

subsection \<open>Auxiliary facts\<close>

lemma strict_eq_iff: "strict_eq a b = (a = b)"
  by (cases a; cases b) (simp_all add: strict_eq_def)

lemma issuerName_validator_eq:
  "issuerName_validator m =
     (\<not> ((props m ''actionType'' = JStr ''generate-root'' \<or>
           props m ''actionType'' = JStr ''rotate-root'') \<and>
          props m ''issuerName'' = JStr ''default''), m)"
  by (simp add: issuerName_validator_def strict_eq_iff)

lemma keyName_validator_eq:
  "keyName_validator m = (props m ''keyName'' \<noteq> JStr ''default'', m)"
  by (simp add: keyName_validator_def strict_eq_iff)

lemma run_rule_Validator:
  "v m = (ok, m') \<Longrightarrow>
   run_rule key (Validator v msg) m =
     ((ok, if ok then [] else [\<lparr>field = key, kind = ReservedValue, message = msg\<rparr>]), m')"
  by (cases ok) simp_all

text \<open>The evaluator on the rule table of the source, unrolled.\<close>

lemma validate_eq:
  "validate m =
    ((presence (props m ''type'') \<and> presence (props m ''commonName'') \<and>
      \<not> ((props m ''actionType'' = JStr ''generate-root'' \<or>
            props m ''actionType'' = JStr ''rotate-root'') \<and>
           props m ''issuerName'' = JStr ''default'') \<and>
      props m ''keyName'' \<noteq> JStr ''default'',
      (if presence (props m ''type'') then []
       else [\<lparr>field = ''type'', kind = MissingRequiredField,
              message = ''Type is required.''\<rparr>]) @
      (if presence (props m ''commonName'') then []
       else [\<lparr>field = ''commonName'', kind = MissingRequiredField,
              message = ''Common name is required.''\<rparr>]) @
      (if (props m ''actionType'' = JStr ''generate-root'' \<or>
           props m ''actionType'' = JStr ''rotate-root'') \<and>
          props m ''issuerName'' = JStr ''default''
       then [\<lparr>field = ''issuerName'', kind = ReservedValue,
              message = ''Issuer name must be unique across all issuers and not be the reserved value 'default'.''\<rparr>]
       else []) @
      (if props m ''keyName'' = JStr ''default''
       then [\<lparr>field = ''keyName'', kind = ReservedValue,
              message = ''Key name cannot be the reserved value 'default'' @ [CHR 0x27]\<rparr>]
       else [])),
     m)"
  unfolding validate_def validations_def
  by (simp add: run_rule_Validator [OF issuerName_validator_eq]
        run_rule_Validator [OF keyName_validator_eq] del: run_rule.simps(2))

lemma failure_kinds:
  "map (\<lambda>f. (field f, kind f)) (failures m) =
      (if presence (props m ''type'') then [] else [(''type'', MissingRequiredField)]) @
      (if presence (props m ''commonName'') then []
       else [(''commonName'', MissingRequiredField)]) @
      (if (props m ''actionType'' = JStr ''generate-root'' \<or>
           props m ''actionType'' = JStr ''rotate-root'') \<and>
          props m ''issuerName'' = JStr ''default''
       then [(''issuerName'', ReservedValue)] else []) @
      (if props m ''keyName'' = JStr ''default'' then [(''keyName'', ReservedValue)] else [])"
  by (simp add: failures_def validate_eq)

lemma failure_fields:
  "map field (failures m) =
      (if presence (props m ''type'') then [] else [''type'']) @
      (if presence (props m ''commonName'') then [] else [''commonName'']) @
      (if (props m ''actionType'' = JStr ''generate-root'' \<or>
           props m ''actionType'' = JStr ''rotate-root'') \<and>
          props m ''issuerName'' = JStr ''default''
       then [''issuerName''] else []) @
      (if props m ''keyName'' = JStr ''default'' then [''keyName''] else [])"
  by (simp add: failures_def validate_eq)

lemma isValid_eq:
  "isValid m =
     (presence (props m ''type'') \<and> presence (props m ''commonName'') \<and>
      \<not> ((props m ''actionType'' = JStr ''generate-root'' \<or>
           props m ''actionType'' = JStr ''rotate-root'') \<and>
          props m ''issuerName'' = JStr ''default'') \<and>
      props m ''keyName'' \<noteq> JStr ''default'')"
  by (simp add: isValid_def validate_eq)

lemma failures_cong:
  assumes "props m' ''type'' = props m ''type''"
    and "props m' ''commonName'' = props m ''commonName''"
    and "props m' ''actionType'' = props m ''actionType''"
    and "props m' ''issuerName'' = props m ''issuerName''"
    and "props m' ''keyName'' = props m ''keyName''"
  shows "failures m' = failures m"
  by (simp only: failures_def validate_eq assms fst_conv snd_conv)

lemma has_failure_iff:
  "(\<exists>f \<in> set fs. field f = k \<and> kind f = K) \<longleftrightarrow>
   (k, K) \<in> set (map (\<lambda>f. (field f, kind f)) fs)"
  by (induction fs) auto

lemma has_field_failure_iff:
  "(\<exists>f \<in> set fs. field f = k) \<longleftrightarrow> k \<in> set (map field fs)"
  by (induction fs) auto

lemma all_failures_iff:
  "(\<forall>f \<in> set fs. P (field f) (kind f)) \<longleftrightarrow>
   (\<forall>p \<in> set (map (\<lambda>f. (field f, kind f)) fs). P (fst p) (snd p))"
  by (induction fs) auto

lemma props_createRecord:
  "props (createRecord inputs mount ib gr gc cs) key =
     (case inputs key of None \<Rightarrow> default_of key | Some v \<Rightarrow> v)"
  by (simp add: createRecord_def)

lemma props_set_prop: "props (set_prop m key v) = (props m)(key := v)"
  by (simp add: set_prop_def)

lemma props_fresh: "props fresh key = default_of key"
  by (simp add: fresh_def props_createRecord)

lemma default_of_validated:
  "default_of ''type'' = JUndefined" "default_of ''commonName'' = JUndefined"
  "default_of ''issuerName'' = JUndefined" "default_of ''keyName'' = JUndefined"
  "default_of ''actionType'' = JUndefined"
  by (simp_all add: default_of_def attributes_def attr_def)

subsection \<open>The reserved value of issuerName\<close>

text \<open>
  C1. The evaluator reports a \<open>ReservedValue\<close> failure for \<open>issuerName\<close> if and only if
  \<open>actionType\<close> is \<open>generate-root\<close> or \<open>rotate-root\<close> and \<open>issuerName\<close> is the string
  \<open>default\<close>. A record whose \<open>actionType\<close> is \<open>import-bundle\<close> gets no failure for
  \<open>issuerName\<close>, whatever its \<open>issuerName\<close> is.
\<close>

theorem issuerName_reserved_value_iff:
  "((\<exists>f \<in> set (failures m). field f = ''issuerName'' \<and> kind f = ReservedValue) \<longleftrightarrow>
      (props m ''actionType'' = JStr ''generate-root'' \<or>
       props m ''actionType'' = JStr ''rotate-root'') \<and>
      props m ''issuerName'' = JStr ''default'') \<and>
   (props m ''actionType'' = JStr ''import-bundle'' \<longrightarrow>
      \<not> (\<exists>f \<in> set (failures m). field f = ''issuerName''))"
  by (simp add: has_failure_iff has_field_failure_iff failure_kinds failure_fields)

theorem issuerName_reserved_value_iff_witness:
  "(\<exists>f \<in> set (failures (set_prop (set_prop fresh ''actionType'' (JStr ''generate-root''))
                           ''issuerName'' (JStr ''default''))).
      field f = ''issuerName'' \<and> kind f = ReservedValue) \<and>
   \<not> (\<exists>f \<in> set (failures (set_prop (set_prop fresh ''actionType'' (JStr ''import-bundle''))
                           ''issuerName'' (JStr ''default''))).
      field f = ''issuerName'')"
  using
    issuerName_reserved_value_iff
      [of "set_prop (set_prop fresh ''actionType'' (JStr ''generate-root''))
             ''issuerName'' (JStr ''default'')"]
    issuerName_reserved_value_iff
      [of "set_prop (set_prop fresh ''actionType'' (JStr ''import-bundle''))
             ''issuerName'' (JStr ''default'')"]
  by (simp add: props_set_prop)

subsection \<open>The reserved value of keyName\<close>

text \<open>
  C2. The evaluator reports a \<open>ReservedValue\<close> failure for \<open>keyName\<close> if and only if
  \<open>keyName\<close> is the string \<open>default\<close>, whatever value \<open>actionType\<close> is given.
\<close>

theorem keyName_reserved_value_iff:
  "(\<exists>f \<in> set (failures (set_prop m ''actionType'' a)).
       field f = ''keyName'' \<and> kind f = ReservedValue) \<longleftrightarrow>
   props m ''keyName'' = JStr ''default''"
  by (simp add: has_failure_iff failure_kinds props_set_prop)

theorem keyName_reserved_value_iff_witness:
  "(\<exists>f \<in> set (failures (set_prop (set_prop fresh ''keyName'' (JStr ''default''))
                           ''actionType'' (JStr ''import-bundle''))).
      field f = ''keyName'' \<and> kind f = ReservedValue) \<and>
   \<not> (\<exists>f \<in> set (failures (set_prop (set_prop fresh ''keyName'' (JStr ''my-key''))
                           ''actionType'' (JStr ''generate-root''))).
      field f = ''keyName'' \<and> kind f = ReservedValue)"
  using
    keyName_reserved_value_iff
      [of "set_prop fresh ''keyName'' (JStr ''default'')" "JStr ''import-bundle''"]
    keyName_reserved_value_iff
      [of "set_prop fresh ''keyName'' (JStr ''my-key'')" "JStr ''generate-root''"]
  by (simp add: props_set_prop)

subsection \<open>Capability flags\<close>

text \<open>
  C3. Each of the four capability flags is true if and only if the oracle's outcome for
  its path has resolved and its \<open>canCreate\<close> is strictly the boolean \<open>true\<close>. A pending
  outcome, a failed lookup and any other value of \<open>canCreate\<close> give \<open>false\<close>. The getters
  have no branch that throws: each is one field read and one comparison.
\<close>

theorem capability_flags_iff:
  "(canImportBundle m \<longleftrightarrow>
      (\<exists>c. importBundlePath m = Resolved c \<and> c ''canCreate'' = JBool True)) \<and>
   (canGenerateIssuerRoot m \<longleftrightarrow>
      (\<exists>c. generateIssuerRootPath m = Resolved c \<and> c ''canCreate'' = JBool True)) \<and>
   (canGenerateIssuerIntermediate m \<longleftrightarrow>
      (\<exists>c. generateIssuerCsrPath m = Resolved c \<and> c ''canCreate'' = JBool True)) \<and>
   (canCrossSign m \<longleftrightarrow>
      (\<exists>c. crossSignPath m = Resolved c \<and> c ''canCreate'' = JBool True))"
proof -
  have get: "strict_eq (capabilities_get p ''canCreate'') (JBool True) \<longleftrightarrow>
      (\<exists>c. p = Resolved c \<and> c ''canCreate'' = JBool True)" for p
    by (cases p) (simp_all add: strict_eq_iff)
  show ?thesis
    by (simp only: canImportBundle_def canGenerateIssuerRoot_def
        canGenerateIssuerIntermediate_def canCrossSign_def get)
qed

theorem capability_flags_iff_witness:
  "canImportBundle
     (fresh\<lparr>importBundlePath := Resolved ((\<lambda>key. JUndefined)(''canCreate'' := JBool True)),
            generateIssuerRootPath := Resolved ((\<lambda>key. JUndefined)(''canCreate'' := JBool False)),
            generateIssuerCsrPath := Rejected,
            crossSignPath := Resolved ((\<lambda>key. JUndefined)(''canCreate'' := JStr ''true''))\<rparr>) \<and>
   \<not> canGenerateIssuerRoot
     (fresh\<lparr>importBundlePath := Resolved ((\<lambda>key. JUndefined)(''canCreate'' := JBool True)),
            generateIssuerRootPath := Resolved ((\<lambda>key. JUndefined)(''canCreate'' := JBool False)),
            generateIssuerCsrPath := Rejected,
            crossSignPath := Resolved ((\<lambda>key. JUndefined)(''canCreate'' := JStr ''true''))\<rparr>) \<and>
   \<not> canGenerateIssuerIntermediate
     (fresh\<lparr>importBundlePath := Resolved ((\<lambda>key. JUndefined)(''canCreate'' := JBool True)),
            generateIssuerRootPath := Resolved ((\<lambda>key. JUndefined)(''canCreate'' := JBool False)),
            generateIssuerCsrPath := Rejected,
            crossSignPath := Resolved ((\<lambda>key. JUndefined)(''canCreate'' := JStr ''true''))\<rparr>) \<and>
   \<not> canCrossSign
     (fresh\<lparr>importBundlePath := Resolved ((\<lambda>key. JUndefined)(''canCreate'' := JBool True)),
            generateIssuerRootPath := Resolved ((\<lambda>key. JUndefined)(''canCreate'' := JBool False)),
            generateIssuerCsrPath := Rejected,
            crossSignPath := Resolved ((\<lambda>key. JUndefined)(''canCreate'' := JStr ''true''))\<rparr>) \<and>
   \<not> canImportBundle fresh"
  using
    capability_flags_iff
      [of "fresh\<lparr>importBundlePath := Resolved ((\<lambda>key. JUndefined)(''canCreate'' := JBool True)),
            generateIssuerRootPath := Resolved ((\<lambda>key. JUndefined)(''canCreate'' := JBool False)),
            generateIssuerCsrPath := Rejected,
            crossSignPath := Resolved ((\<lambda>key. JUndefined)(''canCreate'' := JStr ''true''))\<rparr>"]
    capability_flags_iff [of fresh]
  by (simp add: fresh_def createRecord_def)

subsection \<open>Required fields\<close>

text \<open>
  C4. The evaluator reports a \<open>MissingRequiredField\<close> failure for \<open>type\<close> exactly when
  \<open>type\<close> is absent (\<open>undefined\<close> or \<open>null\<close>) or the empty string, and one for
  \<open>commonName\<close> exactly when \<open>commonName\<close> is absent or the empty string.
\<close>

theorem required_fields_iff:
  "((\<exists>f \<in> set (failures m). field f = ''type'' \<and> kind f = MissingRequiredField) \<longleftrightarrow>
      props m ''type'' = JUndefined \<or> props m ''type'' = JNull \<or>
      props m ''type'' = JStr '''') \<and>
   ((\<exists>f \<in> set (failures m). field f = ''commonName'' \<and> kind f = MissingRequiredField) \<longleftrightarrow>
      props m ''commonName'' = JUndefined \<or> props m ''commonName'' = JNull \<or>
      props m ''commonName'' = JStr '''')"
  by (simp add: has_failure_iff failure_kinds presence_def)

theorem required_fields_iff_witness:
  "(\<exists>f \<in> set (failures (set_prop fresh ''commonName'' (JStr ''example.com''))).
      field f = ''type'' \<and> kind f = MissingRequiredField) \<and>
   \<not> (\<exists>f \<in> set (failures (set_prop fresh ''commonName'' (JStr ''example.com''))).
      field f = ''commonName'' \<and> kind f = MissingRequiredField)"
  using required_fields_iff [of "set_prop fresh ''commonName'' (JStr ''example.com'')"]
  by (simp add: props_set_prop props_fresh default_of_validated)

subsection \<open>Defaults of a fresh record\<close>

text \<open>
  C5. On a freshly created record, each of the following fields that the inputs leave
  unset reads as its declared default: \<open>format\<close> is \<open>pem\<close>, \<open>privateKeyFormat\<close> is
  \<open>der\<close>, \<open>keyType\<close> is \<open>rsa\<close>, \<open>keyBits\<close> is the string \<open>0\<close>, \<open>maxPathLength\<close> is
  \<open>-1\<close>, \<open>excludeCnFromSans\<close> is \<open>false\<close>, \<open>notBeforeDuration\<close> is \<open>30s\<close> and
  \<open>keyRef\<close> is \<open>default\<close>.
\<close>

theorem fresh_record_defaults:
  "(inputs ''format'' = None \<longrightarrow>
      props (createRecord inputs mount ib gr gc cs) ''format'' = JStr ''pem'') \<and>
   (inputs ''privateKeyFormat'' = None \<longrightarrow>
      props (createRecord inputs mount ib gr gc cs) ''privateKeyFormat'' = JStr ''der'') \<and>
   (inputs ''keyType'' = None \<longrightarrow>
      props (createRecord inputs mount ib gr gc cs) ''keyType'' = JStr ''rsa'') \<and>
   (inputs ''keyBits'' = None \<longrightarrow>
      props (createRecord inputs mount ib gr gc cs) ''keyBits'' = JStr ''0'') \<and>
   (inputs ''maxPathLength'' = None \<longrightarrow>
      props (createRecord inputs mount ib gr gc cs) ''maxPathLength'' = JNum (- 1)) \<and>
   (inputs ''excludeCnFromSans'' = None \<longrightarrow>
      props (createRecord inputs mount ib gr gc cs) ''excludeCnFromSans'' = JBool False) \<and>
   (inputs ''notBeforeDuration'' = None \<longrightarrow>
      props (createRecord inputs mount ib gr gc cs) ''notBeforeDuration'' = JStr ''30s'') \<and>
   (inputs ''keyRef'' = None \<longrightarrow>
      props (createRecord inputs mount ib gr gc cs) ''keyRef'' = JStr ''default'')"
proof -
  have "default_of ''format'' = JStr ''pem''"
    and "default_of ''privateKeyFormat'' = JStr ''der''"
    and "default_of ''keyType'' = JStr ''rsa''"
    and "default_of ''keyBits'' = JStr ''0''"
    and "default_of ''maxPathLength'' = JNum (- 1)"
    and "default_of ''excludeCnFromSans'' = JBool False"
    and "default_of ''notBeforeDuration'' = JStr ''30s''"
    and "default_of ''keyRef'' = JStr ''default''"
    by (simp_all add: default_of_def attributes_def attr_def)
  then show ?thesis
    by (simp add: props_createRecord)
qed

theorem fresh_record_defaults_witness:
  "props fresh ''format'' = JStr ''pem'' \<and>
   props fresh ''privateKeyFormat'' = JStr ''der'' \<and>
   props fresh ''keyType'' = JStr ''rsa'' \<and>
   props fresh ''keyBits'' = JStr ''0'' \<and>
   props fresh ''maxPathLength'' = JNum (- 1) \<and>
   props fresh ''excludeCnFromSans'' = JBool False \<and>
   props fresh ''notBeforeDuration'' = JStr ''30s'' \<and>
   props fresh ''keyRef'' = JStr ''default''"
  using fresh_record_defaults [of Map.empty "''pki''" Pending Pending Pending Pending]
  by (simp add: fresh_def)

subsection \<open>The declaration of addBasicConstraints\<close>

text \<open>
  C6, as the source has it. \<open>addBasicConstraints\<close> is declared with the \<open>boolean\<close>
  transform and without a \<open>defaultValue\<close>: on a freshly created record whose inputs
  leave it unset it reads as \<open>undefined\<close>, not as \<open>false\<close>. Its sibling
  \<open>excludeCnFromSans\<close> is the boolean attribute that declares \<open>defaultValue: false\<close>.
\<close>

theorem addBasicConstraints_unset_undefined:
  "map_option transform (map_of attributes ''addBasicConstraints'') = Some (Some ''boolean'') \<and>
   map_option defaultValue (map_of attributes ''addBasicConstraints'') = Some None \<and>
   (inputs ''addBasicConstraints'' = None \<longrightarrow>
      props (createRecord inputs mount ib gr gc cs) ''addBasicConstraints'' = JUndefined)"
proof -
  have decl: "map_of attributes ''addBasicConstraints'' = Some (attr (Some ''boolean''))"
    by (simp add: attributes_def)
  then show ?thesis
    by (simp add: props_createRecord default_of_def attr_def)
qed

theorem addBasicConstraints_unset_undefined_witness:
  "props fresh ''addBasicConstraints'' = JUndefined"
  using addBasicConstraints_unset_undefined [of Map.empty "''pki''" Pending Pending Pending Pending]
  by (simp add: fresh_def)

text \<open>
  The fresh record itself shows that \<open>false\<close> is not what an unset
  \<open>addBasicConstraints\<close> reads as.
\<close>

theorem addBasicConstraints_default_false_counterexample:
  "props fresh ''addBasicConstraints'' \<noteq> JBool False"
  by (simp add: props_fresh default_of_def attributes_def attr_def)

subsection \<open>Which failures there are\<close>

text \<open>
  C7. Every failure the evaluator produces is a \<open>MissingRequiredField\<close> failure of
  \<open>type\<close> or \<open>commonName\<close>, or a \<open>ReservedValue\<close> failure of \<open>issuerName\<close> or
  \<open>keyName\<close>. No other field gets a failure, and assigning any value to a property
  other than these four and \<open>actionType\<close> (such as \<open>xml\<close> to \<open>format\<close>, outside its
  \<open>possibleValues\<close>) leaves the failures as they were.
\<close>

theorem failure_taxonomy_fields:
  "(\<forall>f \<in> set (failures m).
      (field f \<in> {''type'', ''commonName''} \<and> kind f = MissingRequiredField) \<or>
      (field f \<in> {''issuerName'', ''keyName''} \<and> kind f = ReservedValue)) \<and>
   (key \<notin> {''type'', ''commonName'', ''issuerName'', ''keyName'', ''actionType''} \<longrightarrow>
      failures (set_prop m key v) = failures m \<and>
      \<not> (\<exists>f \<in> set (failures m). field f = key))"
proof (intro conjI impI)
  show "\<forall>f \<in> set (failures m).
      (field f \<in> {''type'', ''commonName''} \<and> kind f = MissingRequiredField) \<or>
      (field f \<in> {''issuerName'', ''keyName''} \<and> kind f = ReservedValue)"
    unfolding all_failures_iff
      [where P = "\<lambda>k K. (k \<in> {''type'', ''commonName''} \<and> K = MissingRequiredField) \<or>
                         (k \<in> {''issuerName'', ''keyName''} \<and> K = ReservedValue)"]
      failure_kinds
    by auto
next
  assume key: "key \<notin> {''type'', ''commonName'', ''issuerName'', ''keyName'', ''actionType''}"
  then show "failures (set_prop m key v) = failures m"
    by (intro failures_cong) (auto simp add: props_set_prop)
  from key show "\<not> (\<exists>f \<in> set (failures m). field f = key)"
    unfolding has_field_failure_iff failure_fields by auto
qed

theorem failure_taxonomy_fields_witness:
  "map (\<lambda>f. (field f, kind f))
     (failures (set_prop (set_prop fresh ''keyName'' (JStr ''default'')) ''format'' (JStr ''xml''))) =
     [(''type'', MissingRequiredField), (''commonName'', MissingRequiredField),
      (''keyName'', ReservedValue)] \<and>
   ''format'' \<notin> set (map field (failures (set_prop fresh ''keyName'' (JStr ''default''))))"
proof -
  let ?m = "set_prop fresh ''keyName'' (JStr ''default'')"
  have key: "''format'' \<notin> {''type'', ''commonName'', ''issuerName'', ''keyName'', ''actionType''}"
    by simp
  have kinds: "map (\<lambda>f. (field f, kind f)) (failures ?m) =
     [(''type'', MissingRequiredField), (''commonName'', MissingRequiredField),
      (''keyName'', ReservedValue)]"
    by (simp add: failure_kinds props_set_prop props_fresh default_of_validated presence_def)
  have same: "failures (set_prop ?m ''format'' (JStr ''xml'')) = failures ?m \<and>
      \<not> (\<exists>f \<in> set (failures ?m). field f = ''format'')"
    by (rule failure_taxonomy_fields [of ?m "''format''" "JStr ''xml''", THEN conjunct2, THEN mp, OF key])
  then have "failures (set_prop ?m ''format'' (JStr ''xml'')) = failures ?m"
    and "\<not> (\<exists>f \<in> set (failures ?m). field f = ''format'')"
    by (rule conjunct1, rule conjunct2)
  with kinds show ?thesis
    by (simp add: has_field_failure_iff)
qed

subsection \<open>A record that validates\<close>

text \<open>
  C8. The record created with \<open>type\<close> \<open>internal\<close>, \<open>commonName\<close> \<open>example.com\<close>,
  \<open>issuerName\<close> \<open>my-issuer\<close> and \<open>keyName\<close> \<open>my-key\<close>, every other field unset, has no
  validation failure and is valid, with \<open>actionType\<close> unset and with \<open>actionType\<close>
  assigned any value.
\<close>

theorem example_record_no_failures:
  "failures (createRecord
      [''type'' \<mapsto> JStr ''internal'', ''commonName'' \<mapsto> JStr ''example.com'',
       ''issuerName'' \<mapsto> JStr ''my-issuer'', ''keyName'' \<mapsto> JStr ''my-key'']
      mount ib gr gc cs) = [] \<and>
   isValid (createRecord
      [''type'' \<mapsto> JStr ''internal'', ''commonName'' \<mapsto> JStr ''example.com'',
       ''issuerName'' \<mapsto> JStr ''my-issuer'', ''keyName'' \<mapsto> JStr ''my-key'']
      mount ib gr gc cs) \<and>
   failures (set_prop (createRecord
      [''type'' \<mapsto> JStr ''internal'', ''commonName'' \<mapsto> JStr ''example.com'',
       ''issuerName'' \<mapsto> JStr ''my-issuer'', ''keyName'' \<mapsto> JStr ''my-key'']
      mount ib gr gc cs) ''actionType'' a) = [] \<and>
   isValid (set_prop (createRecord
      [''type'' \<mapsto> JStr ''internal'', ''commonName'' \<mapsto> JStr ''example.com'',
       ''issuerName'' \<mapsto> JStr ''my-issuer'', ''keyName'' \<mapsto> JStr ''my-key'']
      mount ib gr gc cs) ''actionType'' a)"
proof -
  let ?r = "createRecord
      [''type'' \<mapsto> JStr ''internal'', ''commonName'' \<mapsto> JStr ''example.com'',
       ''issuerName'' \<mapsto> JStr ''my-issuer'', ''keyName'' \<mapsto> JStr ''my-key'']
      mount ib gr gc cs"
  have p: "props ?r ''type'' = JStr ''internal''" "props ?r ''commonName'' = JStr ''example.com''"
    "props ?r ''issuerName'' = JStr ''my-issuer''" "props ?r ''keyName'' = JStr ''my-key''"
    by (simp_all add: props_createRecord)
  have "map field (failures ?r) = []" "map field (failures (set_prop ?r ''actionType'' a)) = []"
    by (simp_all add: failure_fields props_set_prop p presence_def)
  moreover have "isValid ?r" "isValid (set_prop ?r ''actionType'' a)"
    by (simp_all add: isValid_eq props_set_prop p presence_def)
  ultimately show ?thesis
    by simp
qed

subsection \<open>Validation leaves the record alone\<close>

text \<open>
  C9. Running the evaluator changes no field of the record: the model it leaves behind
  is the model it was given. A record is valid if and only if the evaluator produces no
  failure.
\<close>

theorem validate_leaves_model_unchanged:
  "after_validate m = m \<and> (isValid m \<longleftrightarrow> failures m = [])"
proof
  show "after_validate m = m"
    by (simp add: after_validate_def validate_eq)
  have "isValid m \<longleftrightarrow> map field (failures m) = []"
    unfolding failure_fields isValid_eq by simp
  then show "isValid m \<longleftrightarrow> failures m = []"
    by simp
qed

theorem validate_leaves_model_unchanged_witness:
  "after_validate (set_prop fresh ''keyName'' (JStr ''default'')) =
     set_prop fresh ''keyName'' (JStr ''default'') \<and>
   \<not> isValid (set_prop fresh ''keyName'' (JStr ''default'')) \<and>
   failures (set_prop fresh ''keyName'' (JStr ''default'')) \<noteq> []"
proof -
  have "map field (failures (set_prop fresh ''keyName'' (JStr ''default''))) \<noteq> []"
    by (simp add: failure_fields props_set_prop)
  then have "failures (set_prop fresh ''keyName'' (JStr ''default'')) \<noteq> []"
    by auto
  with validate_leaves_model_unchanged [of "set_prop fresh ''keyName'' (JStr ''default'')"]
  show ?thesis
    by simp
qed

subsection \<open>The reserved value is compared exactly\<close>

text \<open>
  C10. A record whose \<open>keyName\<close> is anything but the exact string \<open>default\<close> (unset,
  empty, or \<open>Default\<close> in another case) gets no failure for \<open>keyName\<close>; a record whose
  \<open>issuerName\<close> is anything but the exact string \<open>default\<close> gets no failure for
  \<open>issuerName\<close>, also when \<open>actionType\<close> is \<open>generate-root\<close> or \<open>rotate-root\<close>.
\<close>

theorem reserved_comparison_exact:
  "(props m ''keyName'' \<noteq> JStr ''default'' \<longrightarrow>
      \<not> (\<exists>f \<in> set (failures m). field f = ''keyName'')) \<and>
   (props m ''issuerName'' \<noteq> JStr ''default'' \<longrightarrow>
      \<not> (\<exists>f \<in> set (failures m). field f = ''issuerName''))"
  by (simp add: has_field_failure_iff failure_fields)

theorem reserved_comparison_exact_witness:
  "map field (failures (set_prop (set_prop (set_prop fresh
       ''actionType'' (JStr ''generate-root''))
       ''keyName'' (JStr ''Default'')) ''issuerName'' (JStr ''Default''))) = [''type'', ''commonName''] \<and>
   map field (failures (set_prop (set_prop (set_prop fresh
       ''actionType'' (JStr ''rotate-root''))
       ''keyName'' (JStr '''')) ''issuerName'' (JStr ''''))) = [''type'', ''commonName''] \<and>
   map field (failures (set_prop fresh ''actionType'' (JStr ''generate-root''))) =
     [''type'', ''commonName'']"
proof -
  let ?a = "set_prop (set_prop (set_prop fresh
       ''actionType'' (JStr ''generate-root''))
       ''keyName'' (JStr ''Default'')) ''issuerName'' (JStr ''Default'')"
  let ?b = "set_prop (set_prop (set_prop fresh
       ''actionType'' (JStr ''rotate-root''))
       ''keyName'' (JStr '''')) ''issuerName'' (JStr '''')"
  let ?c = "set_prop fresh ''actionType'' (JStr ''generate-root'')"
  have none: "\<not> (\<exists>f \<in> set (failures ?a). field f = ''keyName'')"
      "\<not> (\<exists>f \<in> set (failures ?a). field f = ''issuerName'')"
      "\<not> (\<exists>f \<in> set (failures ?b). field f = ''keyName'')"
      "\<not> (\<exists>f \<in> set (failures ?b). field f = ''issuerName'')"
      "\<not> (\<exists>f \<in> set (failures ?c). field f = ''keyName'')"
      "\<not> (\<exists>f \<in> set (failures ?c). field f = ''issuerName'')"
    using reserved_comparison_exact [of ?a] reserved_comparison_exact [of ?b]
      reserved_comparison_exact [of ?c]
    by (simp_all add: props_set_prop props_fresh default_of_validated)
  have sub: "set (map field (failures m)) \<subseteq> {''type'', ''commonName'', ''issuerName'', ''keyName''}"
    for m
    by (auto simp add: failure_fields)
  have pre: "\<not> presence (props ?a ''type'')" "\<not> presence (props ?a ''commonName'')"
      "\<not> presence (props ?b ''type'')" "\<not> presence (props ?b ''commonName'')"
      "\<not> presence (props ?c ''type'')" "\<not> presence (props ?c ''commonName'')"
    by (simp_all add: props_set_prop props_fresh default_of_validated presence_def)
  have shape: "map field (failures m) = [''type'', ''commonName'']"
    if "\<not> presence (props m ''type'')" "\<not> presence (props m ''commonName'')"
      "\<not> (\<exists>f \<in> set (failures m). field f = ''issuerName'')"
      "\<not> (\<exists>f \<in> set (failures m). field f = ''keyName'')" for m
    using that unfolding has_field_failure_iff failure_fields
    by (simp split: if_splits)
  show ?thesis
    using shape [OF pre(1,2) none(2,1)] shape [OF pre(3,4) none(4,3)] shape [OF pre(5,6) none(6,5)]
    by simp
qed

end
